theory Spec2Isabelle
  imports Main
begin

section \<open>The coffee controller \<^verbatim>\<open>pi_coffee.py\<close>\<close>

text \<open>
  The script drives one relay pin from the answers of a web service and shows the time and
  the brew status on a character display. Its module-level variables become the fields of
  a record; every call into a collaborator (display, GPIO, HTTP, \<^verbatim>\<open>sleep\<close>) is
  appended to a chronological trace, so that the order and the number of the side effects
  can be stated. What the outside world answers (the HTTP body or a network failure, the
  three readings of the clock) is the input of a cycle.
\<close>

subsection \<open>Data\<close>

datatype level = LOW | HIGH

datatype event =
    LcdBegin nat nat
  | LcdSetCursor nat nat
  | LcdMessage string
  | LcdClear
  | GpioSetmode
  | GpioSetup nat
  | GpioSetwarnings bool
  | GpioOutput nat level
  | HttpConnection string
  | HttpRequest string string
  | HttpClose
  | Sleep

text \<open>
  \<open>pins\<close> is the level of every GPIO pin as last driven (the hardware level before the
  script drives it); the other fields are the script's globals.
\<close>

record state =
  brewing :: bool
  lcdTime :: string
  brewString :: string
  oldMin :: string
  oldSec :: string
  pins :: "nat \<Rightarrow> level"
  trace :: "event list"

text \<open>
  The answer of the web service in one cycle: the body returned by \<^verbatim>\<open>resp.read()\<close>,
  or an exception raised by \<^verbatim>\<open>conn.request\<close>, \<^verbatim>\<open>conn.getresponse\<close> or
  \<^verbatim>\<open>resp.read\<close>. No statement between these three calls changes a variable, so
  one failure value stands for all three.
\<close>

datatype response = Fault | Body string

text \<open>
  The clock is read up to three times in a cycle: \<^verbatim>\<open>strftime("%M")\<close> in the
  condition (line 99), \<^verbatim>\<open>strftime("%a %b %d %H:%M")\<close> (line 102) and
  \<^verbatim>\<open>strftime("%M")\<close> again (line 108).
\<close>

record clock =
  minute_now :: string
  stamp_now :: string
  minute_later :: string

record cycle_input =
  resp :: response
  clk :: clock

text \<open>
  The script catches no exception: a raised one ends the process. \<open>Crashed\<close> keeps the
  state the process died in.
\<close>

datatype outcome = Running state | Crashed state

fun state_of :: "outcome \<Rightarrow> state" where
  "state_of (Running s) = s"
| "state_of (Crashed s) = s"

fun is_running :: "outcome \<Rightarrow> bool" where
  "is_running (Running s) = True"
| "is_running (Crashed s) = False"

subsection \<open>Constants and collaborators\<close>

definition brewPin :: nat where
  "brewPin = 14"

definition host :: string where
  "host = ''ruby-coffee-maker.herokuapp.com''"

text \<open>The splash text \<^verbatim>\<open>"Karen 1.1 "\<close> followed by the UTF-8 bytes of the heart.\<close>

definition splash :: string where
  "splash = ''Karen 1.1 '' @ [CHR 0xE2, CHR 0x99, CHR 0xA5]"

definition emit :: "event \<Rightarrow> state \<Rightarrow> state" where
  "emit e s = s\<lparr>trace := trace s @ [e]\<rparr>"

definition GPIO_output :: "nat \<Rightarrow> level \<Rightarrow> state \<Rightarrow> state" where
  "GPIO_output p l s = emit (GpioOutput p l) (s\<lparr>pins := (pins s)(p := l)\<rparr>)"

text \<open>A function body is the list of its statements, executed in order.\<close>

definition run_stmts :: "(state \<Rightarrow> state) list \<Rightarrow> state \<Rightarrow> state" where
  "run_stmts stmts s = fold (\<lambda>stmt t. stmt t) stmts s"

subsection \<open>The functions of the script\<close>

definition update_LCD :: "state \<Rightarrow> state" where
  "update_LCD s =
     emit (LcdMessage (lcdTime s @ [CHR 0x0A] @ brewString s)) (emit LcdClear s)"

definition start_brewing_body :: "(state \<Rightarrow> state) list" where
  "start_brewing_body =
     [GPIO_output brewPin HIGH,
      (\<lambda>s. s\<lparr>brewing := True\<rparr>),
      (\<lambda>s. s\<lparr>brewString := ''Brewing''\<rparr>),
      update_LCD]"

definition start_brewing :: "state \<Rightarrow> state" where
  "start_brewing s = run_stmts start_brewing_body s"

definition stop_brewing_body :: "(state \<Rightarrow> state) list" where
  "stop_brewing_body =
     [GPIO_output brewPin LOW,
      (\<lambda>s. s\<lparr>brewing := False\<rparr>),
      (\<lambda>s. s\<lparr>brewString := ''Not brewing''\<rparr>),
      update_LCD]"

definition stop_brewing :: "state \<Rightarrow> state" where
  "stop_brewing s = run_stmts stop_brewing_body s"

subsection \<open>Start of the process (lines 10 to 70)\<close>

text \<open>\<open>hw\<close> is the level of the pins before the script touches them.\<close>

definition startup_body :: "(state \<Rightarrow> state) list" where
  "startup_body =
     [emit (LcdBegin 16 2),
      (\<lambda>s. s\<lparr>brewing := False\<rparr>),
      emit GpioSetmode,
      emit (GpioSetup brewPin),
      emit (GpioSetwarnings False),
      GPIO_output brewPin LOW,
      emit (LcdSetCursor 0 1),
      emit (LcdMessage ''Not brewing''),
      (\<lambda>s. s\<lparr>lcdTime := ''''\<rparr>),
      (\<lambda>s. s\<lparr>brewString := ''Not brewing''\<rparr>),
      (\<lambda>s. s\<lparr>oldMin := ''''\<rparr>),
      (\<lambda>s. s\<lparr>oldSec := ''''\<rparr>),
      emit (LcdMessage splash),
      emit Sleep]"

definition startup :: "(nat \<Rightarrow> level) \<Rightarrow> state" where
  "startup hw =
     run_stmts startup_body
       \<lparr>brewing = False, lcdTime = '''', brewString = '''', oldMin = '''', oldSec = '''',
        pins = hw, trace = []\<rparr>"

subsection \<open>One iteration of the main loop (lines 73 to 111)\<close>

text \<open>Lines 75 to 96: the query, the comparison with \<^verbatim>\<open>"1"\<close>, the transition.\<close>

definition poll :: "state \<Rightarrow> response \<Rightarrow> outcome" where
  "poll s r =
     (let s1 = emit (HttpConnection host) s in
      if \<not> brewing s1 then
        (let s2 = emit (HttpRequest ''GET'' ''/should_brew'') s1 in
         case r of
           Fault \<Rightarrow> Crashed s2
         | Body data \<Rightarrow>
             Running (emit HttpClose (if data = ''1'' then start_brewing s2 else s2)))
      else
        (let s2 = emit (HttpRequest ''GET'' ''/should_stop'') s1 in
         case r of
           Fault \<Rightarrow> Crashed s2
         | Body data \<Rightarrow>
             Running (emit HttpClose (if data = ''1'' then stop_brewing s2 else s2))))"

text \<open>Lines 98 to 108: the minute check.\<close>

definition minute_check :: "state \<Rightarrow> clock \<Rightarrow> state" where
  "minute_check s c =
     (if minute_now c \<noteq> oldMin s then
        (let s1 = s\<lparr>lcdTime := stamp_now c\<rparr>;
             s2 = update_LCD s1
         in s2\<lparr>oldMin := minute_later c\<rparr>)
      else s)"

definition cycle :: "state \<Rightarrow> cycle_input \<Rightarrow> outcome" where
  "cycle s i =
     (case poll s (resp i) of
        Crashed s' \<Rightarrow> Crashed s'
      | Running s1 \<Rightarrow> Running (emit Sleep (minute_check s1 (clk i))))"

text \<open>
  \<^verbatim>\<open>while True\<close>: the loop has no exit and consumes one input per iteration, so
  a run is given by the inputs of its first iterations; after an uncaught exception no
  further iteration runs.
\<close>

fun main_loop :: "cycle_input list \<Rightarrow> outcome \<Rightarrow> outcome" where
  "main_loop [] out = out"
| "main_loop (i # is) (Running s) = main_loop is (cycle s i)"
| "main_loop (i # is) (Crashed s) = Crashed s"

definition program :: "(nat \<Rightarrow> level) \<Rightarrow> cycle_input list \<Rightarrow> outcome" where
  "program hw is = main_loop is (Running (startup hw))"

subsection \<open>Reading a trace\<close>

definition new_events :: "state \<Rightarrow> state \<Rightarrow> event list" where
  "new_events s s' = drop (length (trace s)) (trace s')"

text \<open>The texts written to the display, the GPIO outputs and the requested paths.\<close>

fun lcd_messages :: "event list \<Rightarrow> string list" where
  "lcd_messages [] = []"
| "lcd_messages (e # es) = (case e of LcdMessage m \<Rightarrow> [m] | _ \<Rightarrow> []) @ lcd_messages es"

fun gpio_outputs :: "event list \<Rightarrow> (nat \<times> level) list" where
  "gpio_outputs [] = []"
| "gpio_outputs (e # es) = (case e of GpioOutput p l \<Rightarrow> [(p, l)] | _ \<Rightarrow> []) @ gpio_outputs es"

fun http_requests :: "event list \<Rightarrow> string list" where
  "http_requests [] = []"
| "http_requests (e # es) = (case e of HttpRequest m p \<Rightarrow> [p] | _ \<Rightarrow> []) @ http_requests es"

text \<open>What the display holds: \<^verbatim>\<open>clear\<close> erases it, \<^verbatim>\<open>message\<close> adds a text.\<close>

definition lcd_show :: "event \<Rightarrow> string list \<Rightarrow> string list" where
  "lcd_show e shown = (case e of LcdClear \<Rightarrow> [] | LcdMessage m \<Rightarrow> shown @ [m] | _ \<Rightarrow> shown)"

definition lcd_shown :: "event list \<Rightarrow> string list" where
  "lcd_shown es = fold lcd_show es []"

text \<open>The text that \<^verbatim>\<open>update_LCD\<close> writes for the current clock text and status text.\<close>

definition display_text :: "state \<Rightarrow> string" where
  "display_text s = lcdTime s @ [CHR 0x0A] @ brewString s"





definition level_of :: "bool \<Rightarrow> level" where
  "level_of b = (if b then HIGH else LOW)"

definition relay_agrees :: "state \<Rightarrow> bool" where
  "relay_agrees s = (pins s brewPin = level_of (brewing s))"

subsection \<open>Sample inputs\<close>

definition hw0 :: "nat \<Rightarrow> level" where
  "hw0 = (\<lambda>p. HIGH)"

definition idle0 :: state where
  "idle0 = startup hw0"

definition clock0 :: clock where
  "clock0 = \<lparr>minute_now = ''05'', stamp_now = ''Mon Jan 01 10:05'', minute_later = ''05''\<rparr>"

definition answer :: "response \<Rightarrow> cycle_input" where
  "answer r = \<lparr>resp = r, clk = clock0\<rparr>"

definition idle1 :: state where
  "idle1 = state_of (cycle idle0 (answer (Body ''0'')))"



section \<open>Properties\<close>

lemmas stmt_defs =
  run_stmts_def start_brewing_def start_brewing_body_def stop_brewing_def
  stop_brewing_body_def update_LCD_def GPIO_output_def emit_def

lemma lcd_messages_append: "lcd_messages (xs @ ys) = lcd_messages xs @ lcd_messages ys"
  by (induction xs) simp_all

lemma gpio_outputs_append: "gpio_outputs (xs @ ys) = gpio_outputs xs @ gpio_outputs ys"
  by (induction xs) simp_all

lemma http_requests_append: "http_requests (xs @ ys) = http_requests xs @ http_requests ys"
  by (induction xs) simp_all

text \<open>
  C10: when the process starts, and whatever level the pins had before, the brew flag is
  False and the relay pin has been driven LOW by an explicit output command, so relay and
  brew flag agree before the first cycle.
\<close>

theorem startup_forces_relay_low:
  "brewing (startup hw) = False \<and>
   pins (startup hw) brewPin = LOW \<and>
   gpio_outputs (trace (startup hw)) = [(brewPin, LOW)] \<and>
   relay_agrees (startup hw)"
  by (simp add: startup_def startup_body_def stmt_defs relay_agrees_def level_of_def)

subsection \<open>What one cycle does to the state and to the trace\<close>

lemma brewing_cycle:
  "brewing (state_of (cycle s i)) = (if resp i = Body ''1'' then \<not> brewing s else brewing s)"
  by (cases "resp i") (simp_all add: cycle_def poll_def minute_check_def stmt_defs Let_def)

lemma pins_cycle:
  "pins (state_of (cycle s i)) =
     (if resp i = Body ''1'' then (pins s)(brewPin := level_of (\<not> brewing s)) else pins s)"
  by (cases "resp i")
    (simp_all add: cycle_def poll_def minute_check_def stmt_defs Let_def level_of_def)

lemma brewString_cycle:
  "brewString (state_of (cycle s i)) =
     (if resp i = Body ''1'' then (if brewing s then ''Not brewing'' else ''Brewing'')
      else brewString s)"
  by (cases "resp i") (simp_all add: cycle_def poll_def minute_check_def stmt_defs Let_def)

lemma trace_poll:
  "trace (state_of (poll s r)) =
     trace s @
     [HttpConnection host,
      HttpRequest ''GET'' (if brewing s then ''/should_stop'' else ''/should_brew'')] @
     (case r of
        Fault \<Rightarrow> []
      | Body data \<Rightarrow>
          (if data = ''1'' then
             [GpioOutput brewPin (level_of (\<not> brewing s)), LcdClear,
              LcdMessage (lcdTime s @ [CHR 0x0A] @
                (if brewing s then ''Not brewing'' else ''Brewing''))]
           else []) @ [HttpClose])"
  by (cases r) (simp_all add: poll_def stmt_defs Let_def level_of_def)

lemma trace_minute_check:
  "trace (minute_check s c) =
     trace s @
     (if minute_now c \<noteq> oldMin s
      then [LcdClear, LcdMessage (stamp_now c @ [CHR 0x0A] @ brewString s)] else [])"
  by (simp add: minute_check_def stmt_defs Let_def)

lemma poll_keeps_clock_fields:
  "oldMin (state_of (poll s r)) = oldMin s \<and> lcdTime (state_of (poll s r)) = lcdTime s"
  by (cases r) (simp_all add: poll_def stmt_defs Let_def)

lemma brewString_poll:
  "brewString (state_of (poll s r)) =
     (if r = Body ''1'' then (if brewing s then ''Not brewing'' else ''Brewing'')
      else brewString s)"
  by (cases r) (simp_all add: poll_def stmt_defs Let_def)

lemma cycle_Fault: "resp i = Fault \<Longrightarrow> cycle s i = Crashed (state_of (poll s Fault))"
  by (simp add: cycle_def poll_def Let_def)

lemma cycle_Body:
  "resp i = Body data \<Longrightarrow>
   cycle s i = Running (emit Sleep (minute_check (state_of (poll s (Body data))) (clk i)))"
  by (simp add: cycle_def poll_def Let_def)

text \<open>The events of one cycle, in order.\<close>

lemma trace_cycle:
  "trace (state_of (cycle s i)) =
     trace (state_of (poll s (resp i))) @
     (case resp i of
        Fault \<Rightarrow> []
      | Body data \<Rightarrow>
          (if minute_now (clk i) \<noteq> oldMin s
           then [LcdClear,
                 LcdMessage (stamp_now (clk i) @ [CHR 0x0A] @
                   brewString (state_of (cycle s i)))]
           else []) @ [Sleep])"
proof (cases "resp i")
  case Fault
  then show ?thesis by (simp add: cycle_Fault)
next
  case (Body data)
  then show ?thesis
    by (simp add: cycle_Body emit_def trace_minute_check poll_keeps_clock_fields
        brewString_poll minute_check_def update_LCD_def Let_def)
qed

lemma new_events_append: "trace s' = trace s @ es \<Longrightarrow> new_events s s' = es"
  by (simp add: new_events_def)

lemma new_events_cycle:
  "new_events s (state_of (cycle s i)) =
     [HttpConnection host,
      HttpRequest ''GET'' (if brewing s then ''/should_stop'' else ''/should_brew'')] @
     (case resp i of
        Fault \<Rightarrow> []
      | Body data \<Rightarrow>
          (if data = ''1'' then
             [GpioOutput brewPin (level_of (\<not> brewing s)), LcdClear,
              LcdMessage (lcdTime s @ [CHR 0x0A] @
                (if brewing s then ''Not brewing'' else ''Brewing''))]
           else []) @ [HttpClose] @
          (if minute_now (clk i) \<noteq> oldMin s
           then [LcdClear,
                 LcdMessage (stamp_now (clk i) @ [CHR 0x0A] @
                   brewString (state_of (cycle s i)))]
           else []) @ [Sleep])"
  by (rule new_events_append) (simp add: trace_cycle trace_poll split: response.splits)

lemma gpio_outputs_cycle:
  "gpio_outputs (new_events s (state_of (cycle s i))) =
     (if resp i = Body ''1'' then [(brewPin, level_of (\<not> brewing s))] else [])"
  by (simp add: new_events_cycle gpio_outputs_append split: response.splits)

lemma lcd_messages_cycle:
  "lcd_messages (new_events s (state_of (cycle s i))) =
     (if resp i = Body ''1''
      then [lcdTime s @ [CHR 0x0A] @ (if brewing s then ''Not brewing'' else ''Brewing'')]
      else []) @
     (if resp i \<noteq> Fault \<and> minute_now (clk i) \<noteq> oldMin s
      then [stamp_now (clk i) @ [CHR 0x0A] @ brewString (state_of (cycle s i))]
      else [])"
  by (simp add: new_events_cycle lcd_messages_append split: response.splits)

subsection \<open>The comparison with \<^verbatim>\<open>"1"\<close>\<close>

text \<open>
  C1: a cycle that receives the body \<open>data\<close> changes the brew flag, and drives the relay,
  if and only if \<open>data\<close> is exactly the one-character string \<^verbatim>\<open>"1"\<close>. The bodies
  \<^verbatim>\<open>"0"\<close>, \<^verbatim>\<open>""\<close>, \<^verbatim>\<open>"true"\<close>, \<^verbatim>\<open>"11"\<close> and \<^verbatim>\<open>"1 "\<close> leave the
  brew flag, the pins and the status text as they were.
\<close>

theorem directive_affirmative_iff_body_is_1:
  "(brewing (state_of (cycle s \<lparr>resp = Body data, clk = c\<rparr>)) \<noteq> brewing s) = (data = ''1'') \<and>
   (gpio_outputs (new_events s (state_of (cycle s \<lparr>resp = Body data, clk = c\<rparr>))) \<noteq> [])
     = (data = ''1'') \<and>
   list_all
     (\<lambda>d. brewing (state_of (cycle s \<lparr>resp = Body d, clk = c\<rparr>)) = brewing s \<and>
          pins (state_of (cycle s \<lparr>resp = Body d, clk = c\<rparr>)) = pins s \<and>
          brewString (state_of (cycle s \<lparr>resp = Body d, clk = c\<rparr>)) = brewString s)
     [''0'', '''', ''true'', ''11'', ''1 '']"
  by (simp add: brewing_cycle gpio_outputs_cycle pins_cycle brewString_cycle)

subsection \<open>Relay level and brew flag\<close>

lemma relay_agrees_cycle: "relay_agrees s \<Longrightarrow> relay_agrees (state_of (cycle s i))"
  by (simp add: relay_agrees_def brewing_cycle pins_cycle level_of_def)

lemma relay_agrees_main_loop:
  "relay_agrees (state_of out) \<Longrightarrow> relay_agrees (state_of (main_loop is out))"
proof (induction "is" arbitrary: out)
  case Nil
  then show ?case by simp
next
  case (Cons i "is")
  show ?case
  proof (cases out)
    case (Running s)
    with Cons.prems have "relay_agrees (state_of (cycle s i))"
      by (simp add: relay_agrees_cycle)
    then show ?thesis using Running Cons.IH by simp
  next
    case (Crashed s)
    then show ?thesis using Cons.prems by simp
  qed
qed

lemma relay_agrees_startup: "relay_agrees (startup hw)"
  by (simp add: startup_def startup_body_def stmt_defs relay_agrees_def level_of_def)

text \<open>
  C2: in every state the program reaches, after any number of cycles with any answers of
  the web service (bodies or failures) and any clock readings, and from any prior level of
  the pins, the level last driven on the relay pin is HIGH when the brew flag is True and
  LOW when it is False.
\<close>

theorem relay_level_follows_brew_state:
  "pins (state_of (program hw is)) brewPin =
     (if brewing (state_of (program hw is)) then HIGH else LOW)"
  using relay_agrees_main_loop [of "Running (startup hw)" "is"] relay_agrees_startup [of hw]
  by (simp add: program_def relay_agrees_def level_of_def)

subsection \<open>The query of a cycle\<close>

text \<open>
  C3: every cycle issues exactly one request, to \<^verbatim>\<open>/should_brew\<close> when the brew flag
  is False and to \<^verbatim>\<open>/should_stop\<close> when it is True, whatever the answer.
\<close>

theorem one_query_per_cycle:
  "http_requests (new_events s (state_of (cycle s i))) =
     [if brewing s then ''/should_stop'' else ''/should_brew'']"
  by (simp add: new_events_cycle http_requests_append split: response.splits)

subsection \<open>Negative directives\<close>

text \<open>
  C4: a cycle whose answer is not the body \<^verbatim>\<open>"1"\<close> leaves the brew flag and the pins
  as they were and issues no GPIO output. In every cycle at most one GPIO output is issued,
  and one is issued exactly when the brew flag changes.
\<close>

theorem negative_directive_is_identity:
  "(resp i \<noteq> Body ''1'' \<longrightarrow>
      brewing (state_of (cycle s i)) = brewing s \<and>
      pins (state_of (cycle s i)) = pins s \<and>
      gpio_outputs (new_events s (state_of (cycle s i))) = []) \<and>
   length (gpio_outputs (new_events s (state_of (cycle s i)))) \<le> 1 \<and>
   (gpio_outputs (new_events s (state_of (cycle s i))) \<noteq> [])
     = (brewing (state_of (cycle s i)) \<noteq> brewing s)"
  by (simp add: brewing_cycle pins_cycle gpio_outputs_cycle)

theorem negative_directive_is_identity_witness:
  "resp (answer (Body ''0'')) \<noteq> Body ''1'' \<and>
   brewing (state_of (cycle idle0 (answer (Body ''0'')))) = brewing idle0 \<and>
   pins (state_of (cycle idle0 (answer (Body ''0'')))) = pins idle0 \<and>
   gpio_outputs (new_events idle0 (state_of (cycle idle0 (answer (Body ''0''))))) = []"
proof -
  have h: "resp (answer (Body ''0'')) \<noteq> Body ''1''"
    by (simp add: answer_def)
  show ?thesis
    using h negative_directive_is_identity [of "answer (Body ''0'')" idle0] by blast
qed

subsection \<open>Further facts about single steps\<close>

lemma start_brewing_prefix:
  "brewString (run_stmts (take k start_brewing_body) t) =
     (if k < 3 then brewString t else ''Brewing'') \<and>
   pins (run_stmts (take k start_brewing_body) t) brewPin =
     (if k = 0 then pins t brewPin else HIGH)"
proof (cases k)
  case 0
  then show ?thesis by (simp add: run_stmts_def)
next
  case (Suc k1)
  note k1 = this
  show ?thesis
  proof (cases k1)
    case 0
    with k1 show ?thesis by (simp add: stmt_defs)
  next
    case (Suc k2)
    note k2 = this
    show ?thesis
    proof (cases k2)
      case 0
      with k1 k2 show ?thesis by (simp add: stmt_defs)
    next
      case (Suc k3)
      with k1 k2 show ?thesis by (cases k3) (simp_all add: stmt_defs)
    qed
  qed
qed

lemma lcd_shown_append: "lcd_shown (xs @ ys) = fold lcd_show ys (lcd_shown xs)"
  by (simp add: lcd_shown_def)

lemma lcdTime_cycle:
  "lcdTime (state_of (cycle s i)) =
     (if resp i \<noteq> Fault \<and> minute_now (clk i) \<noteq> oldMin s then stamp_now (clk i)
      else lcdTime s)"
  by (cases "resp i") (simp_all add: cycle_def poll_def minute_check_def stmt_defs Let_def)

lemma oldMin_cycle:
  "oldMin (state_of (cycle s i)) =
     (if resp i \<noteq> Fault \<and> minute_now (clk i) \<noteq> oldMin s then minute_later (clk i)
      else oldMin s)"
  by (cases "resp i") (simp_all add: cycle_def poll_def minute_check_def stmt_defs Let_def)

lemma is_running_cycle: "is_running (cycle s i) = (resp i \<noteq> Fault)"
  by (cases "resp i") (simp_all add: cycle_Fault cycle_Body)

lemma main_loop_Crashed: "main_loop is (Crashed s) = Crashed s"
  by (cases "is") simp_all

lemma startup_fields:
  "brewing (startup hw) = False \<and> lcdTime (startup hw) = '''' \<and>
   brewString (startup hw) = ''Not brewing'' \<and> oldMin (startup hw) = '''' \<and>
   pins (startup hw) = hw(brewPin := LOW)"
  by (simp add: startup_def startup_body_def stmt_defs)

lemma trace_startup:
  "trace (startup hw) =
     [LcdBegin 16 2, GpioSetmode, GpioSetup brewPin, GpioSetwarnings False,
      GpioOutput brewPin LOW, LcdSetCursor 0 1, LcdMessage ''Not brewing'',
      LcdMessage splash, Sleep]"
  by (simp add: startup_def startup_body_def stmt_defs)

subsection \<open>Starting to brew\<close>

text \<open>
  C5: when the brew flag is False and \<^verbatim>\<open>/should_brew\<close> answers exactly
  \<^verbatim>\<open>"1"\<close>, the cycle sets the brew flag, drives the relay pin HIGH, sets the status
  text to \<^verbatim>\<open>"Brewing"\<close> and renders the display anew, which then shows the clock text
  and \<^verbatim>\<open>"Brewing"\<close>. The GPIO output comes before the display write in the trace, and
  in \<^verbatim>\<open>start_brewing\<close> the relay is driven by the first statement while the status
  text changes only with the third.
\<close>

theorem start_on_affirmative:
  assumes "\<not> brewing s" and "resp i = Body ''1''"
  shows "brewing (state_of (cycle s i)) \<and>
         pins (state_of (cycle s i)) brewPin = HIGH \<and>
         brewString (state_of (cycle s i)) = ''Brewing'' \<and>
         new_events s (state_of (poll s (resp i))) =
           [HttpConnection host, HttpRequest ''GET'' ''/should_brew'',
            GpioOutput brewPin HIGH, LcdClear,
            LcdMessage (lcdTime s @ [CHR 0x0A] @ ''Brewing''), HttpClose] \<and>
         lcd_shown (trace (state_of (cycle s i))) =
           [lcdTime (state_of (cycle s i)) @ [CHR 0x0A] @ ''Brewing''] \<and>
         (\<forall>k t. brewString (run_stmts (take k start_brewing_body) t) =
                  (if k < 3 then brewString t else ''Brewing'') \<and>
                pins (run_stmts (take k start_brewing_body) t) brewPin =
                  (if k = 0 then pins t brewPin else HIGH))"
proof -
  have a: "brewing (state_of (cycle s i))"
    using assms by (simp add: brewing_cycle)
  have b: "pins (state_of (cycle s i)) brewPin = HIGH"
    using assms by (simp add: pins_cycle level_of_def)
  have c: "brewString (state_of (cycle s i)) = ''Brewing''"
    using assms by (simp add: brewString_cycle)
  have d: "new_events s (state_of (poll s (resp i))) =
           [HttpConnection host, HttpRequest ''GET'' ''/should_brew'',
            GpioOutput brewPin HIGH, LcdClear,
            LcdMessage (lcdTime s @ [CHR 0x0A] @ ''Brewing''), HttpClose]"
    using assms by (intro new_events_append) (simp add: trace_poll level_of_def)
  have e: "lcd_shown (trace (state_of (cycle s i))) =
           [lcdTime (state_of (cycle s i)) @ [CHR 0x0A] @ ''Brewing'']"
    using assms
    by (simp add: trace_cycle trace_poll lcdTime_cycle brewString_cycle lcd_shown_append
        lcd_show_def)
  from a b c d e start_brewing_prefix show ?thesis by blast
qed

theorem start_on_affirmative_witness:
  "\<not> brewing idle0 \<and> resp (answer (Body ''1'')) = Body ''1'' \<and>
   brewing (state_of (cycle idle0 (answer (Body ''1'')))) \<and>
   pins (state_of (cycle idle0 (answer (Body ''1'')))) brewPin = HIGH \<and>
   brewString (state_of (cycle idle0 (answer (Body ''1'')))) = ''Brewing''"
proof -
  have h1: "\<not> brewing idle0"
    by (simp add: idle0_def startup_fields)
  have h2: "resp (answer (Body ''1'')) = Body ''1''"
    by (simp add: answer_def)
  show ?thesis
    using h1 h2 start_on_affirmative [OF h1 h2] by blast
qed

subsection \<open>The minute check\<close>

text \<open>
  C6: the minute check replaces the clock text only when the minute just read differs from
  the recorded one. In a cycle in which the two are equal the check changes nothing: the
  clock text and the recorded minute stay, and the only display write of the cycle, if any,
  is the one of a brew transition.
\<close>

theorem clock_text_only_on_minute_change:
  "lcdTime (minute_check s c) = (if minute_now c \<noteq> oldMin s then stamp_now c else lcdTime s) \<and>
   (minute_now c = oldMin s \<longrightarrow> minute_check s c = s) \<and>
   (minute_now (clk i) = oldMin s \<longrightarrow>
      lcdTime (state_of (cycle s i)) = lcdTime s \<and>
      oldMin (state_of (cycle s i)) = oldMin s \<and>
      lcd_messages (new_events s (state_of (cycle s i))) =
        (if resp i = Body ''1''
         then [lcdTime s @ [CHR 0x0A] @ (if brewing s then ''Not brewing'' else ''Brewing'')]
         else []))"
  by (simp add: lcdTime_cycle oldMin_cycle lcd_messages_cycle)
    (simp add: minute_check_def stmt_defs Let_def)

lemma idle1_fields:
  "oldMin idle1 = ''05'' \<and> lcdTime idle1 = ''Mon Jan 01 10:05'' \<and> \<not> brewing idle1 \<and>
   brewString idle1 = ''Not brewing''"
  by (simp add: idle1_def idle0_def oldMin_cycle lcdTime_cycle brewing_cycle brewString_cycle
      startup_fields answer_def clock0_def)

theorem clock_text_only_on_minute_change_witness:
  "minute_now clock0 = oldMin idle1 \<and>
   minute_now (clk (answer (Body ''0''))) = oldMin idle1 \<and>
   minute_check idle1 clock0 = idle1 \<and>
   lcdTime (state_of (cycle idle1 (answer (Body ''0'')))) = ''Mon Jan 01 10:05'' \<and>
   lcd_messages (new_events idle1 (state_of (cycle idle1 (answer (Body ''0''))))) = []"
proof -
  have h1: "minute_now clock0 = oldMin idle1"
    by (simp add: idle1_fields clock0_def)
  have h2: "minute_now (clk (answer (Body ''0''))) = oldMin idle1"
    by (simp add: idle1_fields answer_def clock0_def)
  have h3: "resp (answer (Body ''0'')) \<noteq> Body ''1''"
    by (simp add: answer_def)
  show ?thesis
    using h1 h2 h3 idle1_fields
      clock_text_only_on_minute_change [of idle1 clock0 "answer (Body ''0'')"]
    by simp
qed

subsection \<open>Network failures\<close>

text \<open>
  C8, as the code has it: when the request fails while the brew flag is False and the relay
  is LOW, the brew flag stays False, the relay stays LOW and no GPIO output is issued, but
  the exception is not caught: the process ends in that cycle and no later cycle runs.
\<close>

theorem network_fault_ends_process:
  assumes "\<not> brewing s" and "pins s brewPin = LOW" and "resp i = Fault"
  shows "\<not> is_running (cycle s i) \<and>
         \<not> brewing (state_of (cycle s i)) \<and>
         pins (state_of (cycle s i)) brewPin = LOW \<and>
         gpio_outputs (new_events s (state_of (cycle s i))) = [] \<and>
         main_loop (i # rest) (Running s) = cycle s i"
  using assms
  by (simp add: is_running_cycle brewing_cycle pins_cycle gpio_outputs_cycle)
    (simp add: cycle_Fault main_loop_Crashed)

theorem network_fault_ends_process_witness:
  "\<not> brewing idle0 \<and> pins idle0 brewPin = LOW \<and> resp (answer Fault) = Fault \<and>
   \<not> is_running (cycle idle0 (answer Fault)) \<and>
   main_loop [answer Fault, answer (Body ''1'')] (Running idle0) = cycle idle0 (answer Fault)"
proof -
  have h1: "\<not> brewing idle0"
    by (simp add: idle0_def startup_fields)
  have h2: "pins idle0 brewPin = LOW"
    by (simp add: idle0_def startup_fields)
  have h3: "resp (answer Fault) = Fault"
    by (simp add: answer_def)
  show ?thesis
    using h1 h2 h3 network_fault_ends_process [OF h1 h2 h3, of "[answer (Body ''1'')]"]
    by blast
qed

text \<open>
  C8 as stated fails: from the idle state after startup a failed request ends the process,
  where the body \<^verbatim>\<open>"0"\<close> lets it go on, and an affirmative answer in the next cycle
  is never read.
\<close>

theorem network_fault_counterexample:
  "\<not> is_running (cycle idle0 (answer Fault)) \<and>
   is_running (cycle idle0 (answer (Body ''0''))) \<and>
   \<not> brewing idle0 \<and>
   program hw0 [answer Fault, answer (Body ''1'')] = program hw0 [answer Fault]"
  by (simp add: is_running_cycle answer_def program_def idle0_def startup_fields
      cycle_Fault main_loop_Crashed)

subsection \<open>What the display holds\<close>

lemma main_loop_Cons_Running:
  "main_loop (i # is) (Running s) =
     (if resp i = Fault then cycle s i else main_loop is (Running (state_of (cycle s i))))"
  by (cases "resp i") (simp_all add: cycle_Fault cycle_Body main_loop_Crashed)

lemma trace_cycle_new: "trace (state_of (cycle s i)) = trace s @ new_events s (state_of (cycle s i))"
  by (simp add: new_events_cycle trace_cycle trace_poll split: response.splits)

lemma shown_cycle:
  "lcd_shown (trace (state_of (cycle s i))) =
     (if lcd_messages (new_events s (state_of (cycle s i))) = [] then lcd_shown (trace s)
      else [display_text (state_of (cycle s i))])"
  by (simp add: lcd_messages_cycle)
    (simp add: trace_cycle trace_poll lcd_shown_append lcd_show_def display_text_def
      lcdTime_cycle brewString_cycle split: response.splits)

lemma quiet_cycle:
  "lcd_messages (new_events s (state_of (cycle s i))) = [] \<Longrightarrow>
   display_text (state_of (cycle s i)) = display_text s"
  by (auto simp: lcd_messages_cycle display_text_def lcdTime_cycle brewString_cycle
      split: if_splits)

lemma shown_main_loop:
  "\<exists>es. trace (state_of (main_loop is (Running s))) = trace s @ es \<and>
        (if lcd_messages es = []
         then lcd_shown (trace (state_of (main_loop is (Running s)))) = lcd_shown (trace s) \<and>
              display_text (state_of (main_loop is (Running s))) = display_text s
         else lcd_shown (trace (state_of (main_loop is (Running s)))) =
              [display_text (state_of (main_loop is (Running s)))])"
proof (induction "is" arbitrary: s)
  case Nil
  show ?case by simp
next
  case (Cons i "is")
  let ?s1 = "state_of (cycle s i)"
  let ?e1 = "new_events s ?s1"
  have t1: "trace ?s1 = trace s @ ?e1" by (rule trace_cycle_new)
  show ?case
  proof (cases "resp i = Fault")
    case True
    then have "main_loop (i # is) (Running s) = cycle s i"
      by (subst main_loop_Cons_Running) simp
    then show ?thesis
      using t1 shown_cycle [of s i] quiet_cycle [of s i] by auto
  next
    case False
    then have m: "main_loop (i # is) (Running s) = main_loop is (Running ?s1)"
      by (subst main_loop_Cons_Running) simp
    let ?s2 = "state_of (main_loop is (Running ?s1))"
    from Cons.IH [of ?s1] obtain e2 where
      t2: "trace ?s2 = trace ?s1 @ e2" and
      r2: "if lcd_messages e2 = []
           then lcd_shown (trace ?s2) = lcd_shown (trace ?s1) \<and> display_text ?s2 = display_text ?s1
           else lcd_shown (trace ?s2) = [display_text ?s2]"
      by blast
    have t: "trace ?s2 = trace s @ (?e1 @ e2)"
      using t1 t2 by simp
    have "if lcd_messages (?e1 @ e2) = []
          then lcd_shown (trace ?s2) = lcd_shown (trace s) \<and> display_text ?s2 = display_text s
          else lcd_shown (trace ?s2) = [display_text ?s2]"
      using r2 shown_cycle [of s i] quiet_cycle [of s i]
      by (auto simp: lcd_messages_append split: if_splits)
    with t m show ?thesis by auto
  qed
qed

text \<open>
  C9: before the loop the display is written twice, first the status text
  \<^verbatim>\<open>"Not brewing"\<close> and then, exactly once and under no condition, the splash text.
  In every state of a run the display holds these two startup texts as long as the loop
  has written nothing, and after that only the text of the last render: the first render
  of the loop clears the splash away. The first cycle renders whenever its request is
  answered and the minute read is not the empty string.
\<close>

theorem splash_once_then_overwritten:
  "lcd_messages (trace (startup hw)) = [''Not brewing'', splash] \<and>
   count_list (lcd_messages (trace (startup hw))) splash = 1 \<and>
   lcd_shown (trace (startup hw)) = [''Not brewing'', splash] \<and>
   lcd_shown (trace (state_of (program hw is))) =
     (if lcd_messages (new_events (startup hw) (state_of (program hw is))) = []
      then [''Not brewing'', splash]
      else [display_text (state_of (program hw is))]) \<and>
   (resp i \<noteq> Fault \<and> minute_now (clk i) \<noteq> '''' \<longrightarrow>
      lcd_shown (trace (state_of (program hw [i]))) =
        [stamp_now (clk i) @ [CHR 0x0A] @ brewString (state_of (program hw [i]))])"
proof -
  have a: "lcd_messages (trace (startup hw)) = [''Not brewing'', splash]"
    by (simp add: trace_startup)
  have b: "count_list (lcd_messages (trace (startup hw))) splash = 1"
    by (simp add: a) (simp add: splash_def)
  have c: "lcd_shown (trace (startup hw)) = [''Not brewing'', splash]"
    by (simp add: trace_startup lcd_shown_def lcd_show_def)
  obtain es where
    t: "trace (state_of (program hw is)) = trace (startup hw) @ es" and
    r: "if lcd_messages es = []
        then lcd_shown (trace (state_of (program hw is))) = lcd_shown (trace (startup hw)) \<and>
             display_text (state_of (program hw is)) = display_text (startup hw)
        else lcd_shown (trace (state_of (program hw is))) =
             [display_text (state_of (program hw is))]"
    using shown_main_loop [of "is" "startup hw"] unfolding program_def by blast
  from t have "new_events (startup hw) (state_of (program hw is)) = es"
    by (rule new_events_append)
  with r c have d: "lcd_shown (trace (state_of (program hw is))) =
     (if lcd_messages (new_events (startup hw) (state_of (program hw is))) = []
      then [''Not brewing'', splash]
      else [display_text (state_of (program hw is))])"
    by (simp split: if_splits)
  have e: "resp i \<noteq> Fault \<and> minute_now (clk i) \<noteq> '''' \<longrightarrow>
      lcd_shown (trace (state_of (program hw [i]))) =
        [stamp_now (clk i) @ [CHR 0x0A] @ brewString (state_of (program hw [i]))]"
    by (simp only: program_def main_loop_Cons_Running)
      (simp add: shown_cycle lcd_messages_cycle startup_fields display_text_def
        lcdTime_cycle)
  from a b c d e show ?thesis by blast
qed

theorem splash_once_then_overwritten_witness:
  "resp (answer (Body ''0'')) \<noteq> Fault \<and> minute_now (clk (answer (Body ''0''))) \<noteq> '''' \<and>
   lcd_shown (trace (state_of (program hw0 [answer (Body ''0'')]))) =
     [''Mon Jan 01 10:05'' @ [CHR 0x0A] @ ''Not brewing'']"
proof -
  have h: "resp (answer (Body ''0'')) \<noteq> Fault \<and> minute_now (clk (answer (Body ''0''))) \<noteq> ''''"
    by (simp add: answer_def clock0_def)
  have b: "brewString (state_of (program hw0 [answer (Body ''0'')])) = ''Not brewing''"
    using idle1_fields by (simp add: program_def idle1_def idle0_def)
  have st: "stamp_now (clk (answer (Body ''0''))) = ''Mon Jan 01 10:05''"
    by (simp add: answer_def clock0_def)
  show ?thesis
    using h b st splash_once_then_overwritten [of hw0 "[]" "answer (Body ''0'')"]
    by simp
qed

subsection \<open>Consecutive display writes\<close>


















end
